theory Spec2Isabelle
  imports Complex_Main
begin

section \<open>Text input scroll assist: the geometry\<close>

text \<open>
  The component is \<^verbatim>\<open>TextInput\<close> (\<^verbatim>\<open>ion-input\<close>, \<^verbatim>\<open>ion-textarea\<close>) together with the
  module-level helpers \<^verbatim>\<open>getScrollData\<close>, \<^verbatim>\<open>getScrollAssistDuration\<close>,
  \<^verbatim>\<open>cloneInputComponent\<close> and \<^verbatim>\<open>removeClone\<close>.

  A JavaScript \<^verbatim>\<open>number\<close> is modelled as an exact rational. Offsets, heights and scroll
  positions are pixel counts, the only division is by two, and \<^verbatim>\<open>Math.round\<close> rounds a
  half towards plus infinity, which is \<open>\<lfloor>x + 1/2\<rfloor>\<close>. NaN, infinities and the sign of
  zero are outside the model.
\<close>

record ScrollData =
  scrollAmount :: rat
  scrollTo :: rat
  scrollPadding :: rat
  inputSafeY :: rat

record ContentDimensions =
  contentTop :: rat
  contentHeight :: rat
  scrollTop :: rat
  scrollHeight :: rat

definition Math_round :: "rat \<Rightarrow> rat" where
  "Math_round x = of_int \<lfloor>x + 1 / 2\<rfloor>"

definition SCROLL_ASSIST_SPEED :: rat where
  "SCROLL_ASSIST_SPEED = 3 / 10"

definition getScrollData ::
  "rat \<Rightarrow> rat \<Rightarrow> ContentDimensions \<Rightarrow> rat \<Rightarrow> rat \<Rightarrow> ScrollData" where
  "getScrollData inputOffsetTop inputOffsetHeight scrollViewDimensions keyboardHeight plaformHeight =
    (let inputTop = inputOffsetTop + contentTop scrollViewDimensions - scrollTop scrollViewDimensions;
         inputBottom = inputTop + inputOffsetHeight;
         safeAreaTop = contentTop scrollViewDimensions;
         safeAreaHeight = (plaformHeight - keyboardHeight - safeAreaTop) / 2;
         safeAreaBottom = safeAreaTop + safeAreaHeight;
         inputTopWithinSafeArea = (inputTop \<ge> safeAreaTop \<and> inputTop \<le> safeAreaBottom);
         inputTopAboveSafeArea = (inputTop < safeAreaTop);
         inputTopBelowSafeArea = (inputTop > safeAreaBottom);
         inputBottomWithinSafeArea = (inputBottom \<ge> safeAreaTop \<and> inputBottom \<le> safeAreaBottom);
         inputBottomBelowSafeArea = (inputBottom > safeAreaBottom);
         scrollData = \<lparr>scrollAmount = 0, scrollTo = 0, scrollPadding = 0, inputSafeY = 0\<rparr>
     in
       if inputTopWithinSafeArea \<and> inputBottomWithinSafeArea then scrollData
       else
         let scrollData =
               (if inputTopBelowSafeArea \<or> inputBottomBelowSafeArea \<or> inputTopAboveSafeArea then
                  let scrollData =
                        (if safeAreaHeight > inputOffsetHeight
                         then scrollData\<lparr>scrollAmount := Math_round (safeAreaBottom - inputBottom)\<rparr>
                         else scrollData\<lparr>scrollAmount := Math_round (safeAreaTop - inputTop)\<rparr>);
                      scrollData = scrollData\<lparr>inputSafeY := - (inputTop - safeAreaTop) + 4\<rparr>
                  in
                    if inputTopAboveSafeArea \<and> scrollAmount scrollData > inputOffsetHeight
                    then scrollData\<lparr>scrollAmount := inputOffsetHeight\<rparr>
                    else scrollData
                else scrollData);
             scrollData = scrollData\<lparr>scrollTo := scrollTop scrollViewDimensions - scrollAmount scrollData\<rparr>
         in scrollData\<lparr>scrollPadding := keyboardHeight\<rparr>)"

definition getScrollAssistDuration :: "rat \<Rightarrow> rat" where
  "getScrollAssistDuration distanceToScroll =
    (let distanceToScroll = \<bar>distanceToScroll\<bar>;
         duration = distanceToScroll / SCROLL_ASSIST_SPEED
     in min 400 (max 150 duration))"

text \<open>
  The duration mapping in the words of the specification, to be compared with the
  function above: \<open>clamp(x, lo, hi)\<close>.
\<close>

definition spec_clamp :: "rat \<Rightarrow> rat \<Rightarrow> rat \<Rightarrow> rat" where
  "spec_clamp x lo hi = (if x < lo then lo else if hi < x then hi else x)"

section \<open>The component and its collaborators\<close>

text \<open>
  Only \<^verbatim>\<open>TextInput\<close> itself is in the sources at hand. What it reads from its
  collaborators (\<^verbatim>\<open>BaseInput\<close>, \<^verbatim>\<open>App\<close>, \<^verbatim>\<open>Content\<close>, \<^verbatim>\<open>Platform\<close>, the DOM) is a field of
  the state below; what it asks of them is recorded, in order, in \<open>calls\<close>. The helpers
  of \<^verbatim>\<open>util\<close> it imports (\<^verbatim>\<open>isTrueProperty\<close>, \<^verbatim>\<open>assert\<close>, \<^verbatim>\<open>hasPointerMoved\<close>) and
  \<^verbatim>\<open>BaseInput.hasValue\<close> are parameters of the functions that call them.
\<close>

datatype js_error = TypeError | AssertionError

type_synonym 'a result = "(js_error \<times> 'a) + 'a"

datatype js_value = JS_undefined | JS_bool bool | JS_string string

datatype css_transform = No_transform | Scale0 | Translate3d rat

record PointerCoordinates =
  coord_x :: rat
  coord_y :: rat

datatype action =
    Native_focus
  | Plt_timeout_focus rat
  | App_setEnabled bool "rat option"
  | Content_scrollTo rat rat rat
  | Ev_preventDefault
  | Ev_stopPropagation
  | Item_setElementClass string bool

text \<open>
  The part of the document the component touches: the wrapping \<^verbatim>\<open>ion-input\<close> or
  \<^verbatim>\<open>ion-textarea\<close> element found by \<^verbatim>\<open>closest\<close> (\<open>has_component\<close>), its parent
  (\<open>has_parent\<close>; the parent is taken to be an element, so that \<^verbatim>\<open>parentNode\<close> and
  \<^verbatim>\<open>parentElement\<close> agree), the \<^verbatim>\<open>.cloned-input\<close> elements under that parent in
  document order, and the styles of the wrapper and of the native element.
  \<open>item_offsetTop\<close> and \<open>item_offsetHeight\<close> are the offsets of the element that
  \<^verbatim>\<open>initFocus\<close> measures: the closest \<^verbatim>\<open>ion-item\<close>, or else the component's own element.
  A clone is the shallow copy of the wrapper with the copy of the native element in
  it: its position, its size and the copied value.
\<close>

record cloned_input =
  cl_top :: rat
  cl_left :: rat
  cl_width :: rat
  cl_height :: rat
  cl_value :: string

record dom =
  has_autofocus :: bool
  has_component :: bool
  has_parent :: bool
  comp_offsetTop :: rat
  comp_offsetLeft :: rat
  comp_offsetWidth :: rat
  comp_offsetHeight :: rat
  item_offsetTop :: rat
  item_offsetHeight :: rat
  cloned_inputs :: "cloned_input list"
  comp_pointerEvents :: string
  native_value :: string
  native_transform :: css_transform
  native_opacity :: string

text \<open>
  \<open>ti_clearOnEdit\<close> is \<^verbatim>\<open>_clearOnEdit\<close>, declared without an initial value: \<open>None\<close> is
  \<^verbatim>\<open>undefined\<close>. \<open>ti_didBlurAfterEdit\<close> is only ever tested for truth, so \<^verbatim>\<open>undefined\<close> is
  \<open>False\<close>. \<open>ti_content\<close> is the optional \<^verbatim>\<open>Content\<close> with the dimensions it reports.
  \<open>coord\<close>, \<open>relocated\<close> and \<open>clone\<close> are the variables of the closure that
  \<^verbatim>\<open>_enableScrollAssist\<close> creates.
\<close>

record TextInput =
  ti_type :: string
  ti_value :: string
  ti_clearOnEdit :: "bool option"
  ti_didBlurAfterEdit :: bool
  ti_isFocus :: bool
  ti_item :: bool
  ti_autoFocusAssist :: string
  ti_keyboardHeight :: rat
  ti_scrollData :: "ScrollData option"
  ti_content :: "ContentDimensions option"
  plt_height :: rat
  ti_dom :: dom
  coord :: "PointerCoordinates option"
  relocated :: bool
  clone :: bool
  calls :: "action list"

definition call :: "action \<Rightarrow> TextInput \<Rightarrow> TextInput" where
  "call a self = self\<lparr>calls := calls self @ [a]\<rparr>"

subsection \<open>Clear on edit\<close>

definition set_clearOnEdit :: "(js_value \<Rightarrow> bool) \<Rightarrow> js_value \<Rightarrow> TextInput \<Rightarrow> TextInput" where
  "set_clearOnEdit isTrueProperty val self = self\<lparr>ti_clearOnEdit := Some (isTrueProperty val)\<rparr>"

definition ngOnInit :: "(js_value \<Rightarrow> bool) \<Rightarrow> TextInput \<Rightarrow> TextInput" where
  "ngOnInit isTrueProperty self =
    (let self = (if ti_clearOnEdit self \<noteq> Some False \<and> ti_type self = ''password''
                 then set_clearOnEdit isTrueProperty (JS_bool True) self
                 else self)
     in
       if has_autofocus (ti_dom self) then
         (let self = self\<lparr>ti_dom := (ti_dom self)\<lparr>has_autofocus := False\<rparr>\<rparr>
          in if ti_autoFocusAssist self = ''immediate'' then call Native_focus self
             else if ti_autoFocusAssist self = ''delay'' then call (Plt_timeout_focus 650) self
             else self)
       else self)"

definition inputFocusChanged :: "(string \<Rightarrow> bool) \<Rightarrow> bool \<Rightarrow> TextInput \<Rightarrow> TextInput" where
  "inputFocusChanged hasValue hasFocus self =
    (let self = (if ti_item self then call (Item_setElementClass ''input-has-focus'' hasFocus) self
                 else self)
     in if ti_clearOnEdit self = Some True \<and> \<not> hasFocus \<and> hasValue (ti_value self)
        then self\<lparr>ti_didBlurAfterEdit := True\<rparr>
        else self)"

text \<open>
  \<^verbatim>\<open>this.value = ''\<close> goes through the setter of \<^verbatim>\<open>BaseInput\<close>, which is not among the
  sources; it is taken to store the value.
\<close>

definition clearTextInput :: "TextInput \<Rightarrow> TextInput" where
  "clearTextInput self = self\<lparr>ti_value := []\<rparr>"

definition checkClearOnEdit :: "(string \<Rightarrow> bool) \<Rightarrow> string \<Rightarrow> TextInput \<Rightarrow> TextInput" where
  "checkClearOnEdit hasValue inputValue self =
    (if ti_clearOnEdit self \<noteq> Some True then self
     else
       let self = (if ti_didBlurAfterEdit self \<and> hasValue (ti_value self)
                   then clearTextInput self
                   else self)
       in self\<lparr>ti_didBlurAfterEdit := False\<rparr>)"

text \<open>The event of \<^verbatim>\<open>onKeydown\<close> is \<open>None\<close> when falsy, else it carries \<^verbatim>\<open>ev.target.value\<close>.\<close>

definition onKeydown :: "(string \<Rightarrow> bool) \<Rightarrow> string option \<Rightarrow> TextInput \<Rightarrow> TextInput" where
  "onKeydown hasValue ev self =
    (case ev of
       None \<Rightarrow> self
     | Some target_value \<Rightarrow>
         if ti_clearOnEdit self = Some True then checkClearOnEdit hasValue target_value self
         else self)"

text \<open>
  Modelled from the spec: \<^verbatim>\<open>BaseInput.hasValue\<close> is not among the sources; the
  specification speaks of a field that "still has a value", a "non-empty value".
\<close>

definition spec_hasValue :: "string \<Rightarrow> bool" where
  "spec_hasValue v = (v \<noteq> [])"

subsection \<open>Setting focus\<close>

definition setFocus :: "TextInput \<Rightarrow> TextInput" where
  "setFocus self = (if ti_isFocus self then call Native_focus self else self)"

text \<open>The method \<^verbatim>\<open>TextInput.initFocus\<close>, as opposed to the closure of the same name below.\<close>

definition TextInput_initFocus :: "TextInput \<Rightarrow> TextInput" where
  "TextInput_initFocus self = setFocus self"

subsection \<open>Cloning and removing the clone\<close>

definition cloneInputComponent :: "dom \<Rightarrow> dom result" where
  "cloneInputComponent d =
    (if has_component d then
       (let clonedComponentEle =
              \<lparr>cl_top = comp_offsetTop d, cl_left = comp_offsetLeft d,
               cl_width = comp_offsetWidth d, cl_height = comp_offsetHeight d,
               cl_value = native_value d\<rparr>
        in if has_parent d
           then Inr (d\<lparr>cloned_inputs := cloned_inputs d @ [clonedComponentEle],
                       comp_pointerEvents := ''none'',
                       native_transform := Scale0\<rparr>)
           else Inl (TypeError, d))
     else Inr (d\<lparr>native_transform := Scale0\<rparr>))"

fun removeChildren :: "cloned_input list \<Rightarrow> cloned_input list \<Rightarrow> cloned_input list" where
  "removeChildren [] children = children"
| "removeChildren (c # clonedInputEles) children =
     removeChildren clonedInputEles (remove1 c children)"

definition removeClone :: "dom \<Rightarrow> dom" where
  "removeClone d =
    (let d = (if has_component d \<and> has_parent d
              then d\<lparr>cloned_inputs := removeChildren (cloned_inputs d) (cloned_inputs d),
                     comp_pointerEvents := []\<rparr>
              else d)
     in d\<lparr>native_transform := No_transform, native_opacity := []\<rparr>)"

text \<open>
  \<^verbatim>\<open>hideFocus\<close> of \<^verbatim>\<open>_enableBlurOnScrolling\<close> reaches the native element and the platform
  through the captured \<^verbatim>\<open>self\<close>.
\<close>

definition hideFocus :: "bool \<Rightarrow> TextInput \<Rightarrow> TextInput result" where
  "hideFocus shouldHideFocus self =
    (if shouldHideFocus then
       (case cloneInputComponent (ti_dom self) of
          Inl (e, d) \<Rightarrow> Inl (e, self\<lparr>ti_dom := d\<rparr>)
        | Inr d \<Rightarrow> Inr (self\<lparr>ti_dom := d\<lparr>native_transform := Scale0\<rparr>\<rparr>))
     else Inr (self\<lparr>ti_dom := removeClone (ti_dom self)\<rparr>))"

text \<open>
  \<^verbatim>\<open>beginFocus\<close> is a nested \<^verbatim>\<open>function\<close> declaration whose body reads
  \<^verbatim>\<open>this._native.nativeElement\<close> and \<^verbatim>\<open>this._plt\<close>, where its siblings read
  \<^verbatim>\<open>self._native\<close> and \<^verbatim>\<open>self._plt\<close> (\<^verbatim>\<open>const self = this\<close> is the first statement of
  \<^verbatim>\<open>_enableScrollAssist\<close>). In such a function \<^verbatim>\<open>this\<close> is what the call supplies: the
  receiver of a method call, and for a plain call \<^verbatim>\<open>undefined\<close> (in sloppy mode the
  global object, which has no \<^verbatim>\<open>_native\<close> either). \<open>beginFocus_this\<close> is the body with
  that receiver as a parameter: with \<open>This_component\<close> the body runs on the component,
  with \<open>This_undefined\<close> the read of \<^verbatim>\<open>this._native.nativeElement\<close> throws a
  \<^verbatim>\<open>TypeError\<close>, after \<open>relocated\<close> has been assigned.
\<close>

datatype this_value = This_undefined | This_component

definition beginFocus_this ::
  "this_value \<Rightarrow> bool \<Rightarrow> rat \<Rightarrow> TextInput \<Rightarrow> TextInput result" where
  "beginFocus_this this shouldFocus inputRelativeY self =
    (if relocated self = shouldFocus then Inr self
     else
       let self = self\<lparr>relocated := shouldFocus\<rparr>
       in case this of
            This_undefined \<Rightarrow> Inl (TypeError, self)
          | This_component \<Rightarrow>
              if shouldFocus then
                (case cloneInputComponent (ti_dom self) of
                   Inl (e, d) \<Rightarrow> Inl (e, self\<lparr>ti_dom := d\<rparr>)
                 | Inr d \<Rightarrow>
                     Inr (self\<lparr>ti_dom := d\<lparr>native_transform := Translate3d inputRelativeY,
                                              native_opacity := ''0''\<rparr>\<rparr>))
              else Inr (self\<lparr>ti_dom := removeClone (ti_dom self)\<rparr>))"

text \<open>
  Both calls in the source, \<^verbatim>\<open>beginFocus(true, scrollData.inputSafeY)\<close> and
  \<^verbatim>\<open>beginFocus(false, 0)\<close>, are plain calls without a receiver.
\<close>

definition beginFocus :: "bool \<Rightarrow> rat \<Rightarrow> TextInput \<Rightarrow> TextInput result" where
  "beginFocus shouldFocus inputRelativeY self =
     beginFocus_this This_undefined shouldFocus inputRelativeY self"

subsection \<open>Scroll assist: the closure of \<^verbatim>\<open>_enableScrollAssist\<close>\<close>

text \<open>
  \<^verbatim>\<open>initFocus\<close> up to and including the call of \<^verbatim>\<open>content.scrollTo\<close>; the callback it
  hands over is \<open>scrollTo_completed\<close>.
\<close>

definition initFocus :: "TextInput \<Rightarrow> TextInput result" where
  "initFocus self =
    (case ti_content self of
       None \<Rightarrow> Inr (setFocus self)
     | Some dimensions \<Rightarrow>
         let scrollData = getScrollData (item_offsetTop (ti_dom self)) (item_offsetHeight (ti_dom self))
                            dimensions (ti_keyboardHeight self) (plt_height self);
             self = self\<lparr>ti_scrollData := Some scrollData\<rparr>
         in
           if \<bar>scrollAmount scrollData\<bar> < 4
           then Inr (call (App_setEnabled True None) (setFocus self))
           else
             let scrollDuration = getScrollAssistDuration (scrollAmount scrollData);
                 self = call (App_setEnabled False (Some scrollDuration)) self
             in case (if clone self then beginFocus True (inputSafeY scrollData) self else Inr self) of
                  Inl thrown \<Rightarrow> Inl thrown
                | Inr self \<Rightarrow>
                    Inr (call (Content_scrollTo 0 (scrollTo scrollData) scrollDuration)
                           (setFocus self)))"

definition scrollTo_completed :: "TextInput \<Rightarrow> TextInput result" where
  "scrollTo_completed self =
    (case (if clone self then beginFocus False 0 self else Inr self) of
       Inl thrown \<Rightarrow> Inl thrown
     | Inr self \<Rightarrow> Inr (call (App_setEnabled True None) self))"

text \<open>
  \<open>enabled\<close> is what \<^verbatim>\<open>self._app.isEnabled()\<close> answers, \<open>ev\<close> and \<open>endCoord\<close> what
  \<^verbatim>\<open>pointerCoord(ev)\<close> answers. \<open>asserts\<close> says whether \<^verbatim>\<open>assert\<close> throws on a falsy
  argument or does nothing.
\<close>

definition pointerDown :: "bool \<Rightarrow> PointerCoordinates \<Rightarrow> TextInput \<Rightarrow> bool \<times> TextInput" where
  "pointerDown enabled ev self =
    (if enabled then (True, self\<lparr>coord := Some ev\<rparr>) else (False, self))"

definition pointerUp ::
  "(rat \<Rightarrow> PointerCoordinates option \<Rightarrow> PointerCoordinates \<Rightarrow> bool) \<Rightarrow> bool \<Rightarrow> bool
     \<Rightarrow> PointerCoordinates \<Rightarrow> TextInput \<Rightarrow> TextInput result" where
  "pointerUp hasPointerMoved asserts enabled endCoord self =
    (if \<not> enabled then Inr (call Ev_stopPropagation (call Ev_preventDefault self))
     else if asserts \<and> coord self = None then Inl (AssertionError, self)
     else
       case (if \<not> hasPointerMoved 8 (coord self) endCoord \<and> \<not> ti_isFocus self
             then initFocus (call Ev_stopPropagation (call Ev_preventDefault self))
             else Inr self) of
         Inl thrown \<Rightarrow> Inl thrown
       | Inr self \<Rightarrow> Inr (self\<lparr>coord := None\<rparr>))"

text \<open>
  Modelled from the spec: \<^verbatim>\<open>hasPointerMoved\<close> of \<^verbatim>\<open>util/dom\<close> is not among the sources.
  The specification compares the displacement from the recorded coordinate with the
  threshold: below it the gesture is a tap, at or above it a drag. Its two examples,
  a move by (3, 4) and a move by (0, 20), read the displacement as a distance.
\<close>

definition spec_hasPointerMoved ::
  "rat \<Rightarrow> PointerCoordinates option \<Rightarrow> PointerCoordinates \<Rightarrow> bool" where
  "spec_hasPointerMoved threshold startCoord endCoord =
    (case startCoord of
       None \<Rightarrow> False
     | Some s \<Rightarrow>
         threshold * threshold
           \<le> (coord_x s - coord_x endCoord) * (coord_x s - coord_x endCoord)
             + (coord_y s - coord_y endCoord) * (coord_y s - coord_y endCoord))"

subsection \<open>A field to evaluate on\<close>

text \<open>
  The numeric example of the specification: a password field in an item at offset 500,
  40 high, in a scroll view whose content starts at 0 and is not scrolled, with a
  keyboard of 260 on a platform 640 high, and input cloning switched on.
\<close>

definition example_dom :: dom where
  "example_dom =
    \<lparr>has_autofocus = False, has_component = True, has_parent = True,
     comp_offsetTop = 500, comp_offsetLeft = 0, comp_offsetWidth = 320, comp_offsetHeight = 40,
     item_offsetTop = 500, item_offsetHeight = 40,
     cloned_inputs = [], comp_pointerEvents = [], native_value = ''secret'',
     native_transform = No_transform, native_opacity = []\<rparr>"

definition example_field :: TextInput where
  "example_field =
    \<lparr>ti_type = ''password'', ti_value = ''secret'', ti_clearOnEdit = None,
     ti_didBlurAfterEdit = False, ti_isFocus = False, ti_item = False,
     ti_autoFocusAssist = ''delay'', ti_keyboardHeight = 260, ti_scrollData = None,
     ti_content = Some \<lparr>contentTop = 0, contentHeight = 640, scrollTop = 0, scrollHeight = 1200\<rparr>,
     plt_height = 640, ti_dom = example_dom,
     coord = None, relocated = False, clone = True, calls = []\<rparr>"

section \<open>Properties of the geometry\<close>

subsection \<open>Rounding\<close>

lemma Math_round_nonneg: "- (1 / 2) \<le> x \<Longrightarrow> 0 \<le> Math_round x"
  unfolding Math_round_def by simp

lemma Math_round_pos: "1 / 2 \<le> x \<Longrightarrow> 0 < Math_round x"
  unfolding Math_round_def by simp

lemma Math_round_nonpos: "x < 1 / 2 \<Longrightarrow> Math_round x \<le> 0"
  unfolding Math_round_def by (simp add: floor_le_zero)

lemma Math_round_neg: "x < - (1 / 2) \<Longrightarrow> Math_round x < 0"
  unfolding Math_round_def by (simp add: floor_less_zero)

subsection \<open>The scroll amount, branch by branch\<close>

text \<open>
  The value of \<open>scrollAmount\<close> in terms of the local constants of \<^verbatim>\<open>getScrollData\<close>;
  \<open>rounded\<close> is what the two \<^verbatim>\<open>Math.round\<close> assignments leave before the clamp.
\<close>

lemma scrollAmount_getScrollData:
  assumes "inputTop = inputOffsetTop + contentTop d - scrollTop d"
      and "safeAreaTop = contentTop d"
      and "safeAreaHeight = (plaformHeight - keyboardHeight - safeAreaTop) / 2"
      and "safeAreaBottom = safeAreaTop + safeAreaHeight"
      and "rounded = (if inputOffsetHeight < safeAreaHeight
                      then Math_round (safeAreaBottom - (inputTop + inputOffsetHeight))
                      else Math_round (safeAreaTop - inputTop))"
  shows "scrollAmount (getScrollData inputOffsetTop inputOffsetHeight d keyboardHeight plaformHeight) =
    (if (safeAreaTop \<le> inputTop \<and> inputTop \<le> safeAreaBottom)
        \<and> (safeAreaTop \<le> inputTop + inputOffsetHeight \<and> inputTop + inputOffsetHeight \<le> safeAreaBottom)
     then 0
     else if safeAreaBottom < inputTop \<or> safeAreaBottom < inputTop + inputOffsetHeight
             \<or> inputTop < safeAreaTop
     then (if inputTop < safeAreaTop \<and> inputOffsetHeight < rounded then inputOffsetHeight else rounded)
     else 0)"
  unfolding assms getScrollData_def Let_def by simp

subsection \<open>Field inside the safe area\<close>

text \<open>
  Claim C1. Whenever the top of the field, \<open>inputTop\<close>, and its bottom,
  \<open>inputBottom\<close>, both lie in the closed interval from \<open>safeAreaTop\<close> to
  \<open>safeAreaBottom\<close>, \<^verbatim>\<open>getScrollData\<close> returns the plan whose four fields are zero. The
  height of the field need not be restricted for this.
\<close>

theorem getScrollData_inside_safe_area:
  fixes inputOffsetTop inputOffsetHeight keyboardHeight plaformHeight :: rat
    and scrollViewDimensions :: ContentDimensions
  defines "inputTop \<equiv> inputOffsetTop + contentTop scrollViewDimensions - scrollTop scrollViewDimensions"
  defines "inputBottom \<equiv> inputTop + inputOffsetHeight"
  defines "safeAreaTop \<equiv> contentTop scrollViewDimensions"
  defines "safeAreaBottom \<equiv> safeAreaTop + (plaformHeight - keyboardHeight - safeAreaTop) / 2"
  assumes "safeAreaTop \<le> inputTop" and "inputTop \<le> safeAreaBottom"
      and "safeAreaTop \<le> inputBottom" and "inputBottom \<le> safeAreaBottom"
  shows "getScrollData inputOffsetTop inputOffsetHeight scrollViewDimensions keyboardHeight plaformHeight
         = \<lparr>scrollAmount = 0, scrollTo = 0, scrollPadding = 0, inputSafeY = 0\<rparr>"
  using assms by (simp add: getScrollData_def Let_def)

text \<open>A field at offset 100, 40 high, with the safe area reaching from 0 to 190.\<close>

theorem getScrollData_inside_safe_area_witness:
  "(0::rat) \<le> 100 + 0 - 0 \<and> (100::rat) + 0 - 0 + 40 \<le> 0 + (640 - 260 - 0) / 2
   \<and> getScrollData 100 40 \<lparr>contentTop = 0, contentHeight = 640, scrollTop = 0, scrollHeight = 1200\<rparr> 260 640
       = \<lparr>scrollAmount = 0, scrollTo = 0, scrollPadding = 0, inputSafeY = 0\<rparr>"
  using getScrollData_inside_safe_area
    [where inputOffsetTop = 100 and inputOffsetHeight = 40 and keyboardHeight = 260
       and plaformHeight = 640
       and scrollViewDimensions =
         "\<lparr>contentTop = 0, contentHeight = 640, scrollTop = 0, scrollHeight = 1200\<rparr>"]
  by simp

subsection \<open>The sign of the scroll amount\<close>

text \<open>
  Claim C2 as the specification states it: a field below the safe area gets a positive
  \<open>scrollAmount\<close>, a field above it a negative one. The code has it the other way
  round, since it scrolls to \<open>scrollTop - scrollAmount\<close>. At the specification's own
  example (offset 500, height 40, keyboard 260, platform 640) the field is below the
  safe area and the amount is not positive; at offset \<open>-50\<close> it is above and the amount
  is not negative.
\<close>

theorem getScrollData_sign_counterexample:
  "(0::rat) \<le> 40
   \<and> (0::rat) + (640 - 260 - 0) / 2 < 500 + 0 - 0
   \<and> \<not> 0 < scrollAmount (getScrollData 500 40
              \<lparr>contentTop = 0, contentHeight = 640, scrollTop = 0, scrollHeight = 1200\<rparr> 260 640)
   \<and> (- 50 :: rat) + 0 - 0 < 0
   \<and> \<not> scrollAmount (getScrollData (- 50) 40
              \<lparr>contentTop = 0, contentHeight = 640, scrollTop = 0, scrollHeight = 1200\<rparr> 260 640) < 0"
  by code_simp

text \<open>
  Claim C2, amended. For a field of non-negative height: below a safe area of
  non-negative height (\<open>safeAreaBottom < inputTop\<close>) the amount is at most zero, and
  negative once the top is more than half a pixel below; with the top above the safe
  area (\<open>inputTop < safeAreaTop\<close>) the amount is at least zero, and positive once the
  field has a positive height and its top is at least half a pixel above. The half
  pixel is what \<^verbatim>\<open>Math.round\<close> can take away.
\<close>

theorem getScrollData_scrollAmount_sign:
  fixes inputOffsetTop inputOffsetHeight keyboardHeight plaformHeight :: rat
    and scrollViewDimensions :: ContentDimensions
  defines "inputTop \<equiv> inputOffsetTop + contentTop scrollViewDimensions - scrollTop scrollViewDimensions"
  defines "safeAreaTop \<equiv> contentTop scrollViewDimensions"
  defines "safeAreaHeight \<equiv> (plaformHeight - keyboardHeight - safeAreaTop) / 2"
  defines "safeAreaBottom \<equiv> safeAreaTop + safeAreaHeight"
  defines "amount \<equiv> scrollAmount (getScrollData inputOffsetTop inputOffsetHeight
                       scrollViewDimensions keyboardHeight plaformHeight)"
  assumes h: "0 \<le> inputOffsetHeight"
  shows "(0 \<le> safeAreaHeight \<and> safeAreaBottom < inputTop \<longrightarrow> amount \<le> 0)
       \<and> (0 \<le> safeAreaHeight \<and> safeAreaBottom + 1 / 2 < inputTop \<longrightarrow> amount < 0)
       \<and> (inputTop < safeAreaTop \<longrightarrow> 0 \<le> amount)
       \<and> (0 < inputOffsetHeight \<and> inputTop + 1 / 2 \<le> safeAreaTop \<longrightarrow> 0 < amount)"
proof -
  define rounded where "rounded =
     (if inputOffsetHeight < safeAreaHeight
      then Math_round (safeAreaBottom - (inputTop + inputOffsetHeight))
      else Math_round (safeAreaTop - inputTop))"
  have sab: "safeAreaBottom = safeAreaTop + safeAreaHeight"
    by (simp add: safeAreaBottom_def)
  have amount: "amount =
    (if (safeAreaTop \<le> inputTop \<and> inputTop \<le> safeAreaBottom)
        \<and> (safeAreaTop \<le> inputTop + inputOffsetHeight \<and> inputTop + inputOffsetHeight \<le> safeAreaBottom)
     then 0
     else if safeAreaBottom < inputTop \<or> safeAreaBottom < inputTop + inputOffsetHeight
             \<or> inputTop < safeAreaTop
     then (if inputTop < safeAreaTop \<and> inputOffsetHeight < rounded then inputOffsetHeight else rounded)
     else 0)"
    unfolding amount_def
    by (rule scrollAmount_getScrollData [where safeAreaHeight = safeAreaHeight])
       (simp_all add: inputTop_def safeAreaTop_def safeAreaHeight_def safeAreaBottom_def rounded_def)
  have below: "rounded \<le> 0" if "0 \<le> safeAreaHeight" "safeAreaBottom < inputTop"
    unfolding rounded_def using that h sab by (auto intro!: Math_round_nonpos)
  have below_strict: "rounded < 0" if "0 \<le> safeAreaHeight" "safeAreaBottom + 1 / 2 < inputTop"
    unfolding rounded_def using that h sab by (auto intro!: Math_round_neg)
  have above: "0 \<le> rounded" if "inputTop < safeAreaTop"
    unfolding rounded_def using that h sab by (auto intro!: Math_round_nonneg)
  have above_strict: "0 < rounded" if "inputTop + 1 / 2 \<le> safeAreaTop"
    unfolding rounded_def using that h sab by (auto intro!: Math_round_pos)
  show ?thesis
  proof (intro conjI impI)
    assume a: "0 \<le> safeAreaHeight \<and> safeAreaBottom < inputTop"
    then have "\<not> inputTop < safeAreaTop" using sab by simp
    with a below show "amount \<le> 0" by (simp add: amount)
  next
    assume a: "0 \<le> safeAreaHeight \<and> safeAreaBottom + 1 / 2 < inputTop"
    then have "\<not> inputTop < safeAreaTop" "safeAreaBottom < inputTop" using sab by simp_all
    with a below_strict show "amount < 0" by (simp add: amount)
  next
    assume a: "inputTop < safeAreaTop"
    with above h show "0 \<le> amount" by (simp add: amount)
  next
    assume a: "0 < inputOffsetHeight \<and> inputTop + 1 / 2 \<le> safeAreaTop"
    then have "inputTop < safeAreaTop" by simp
    with a above_strict show "0 < amount" by (simp add: amount)
  qed
qed

text \<open>The same two fields: 350 to scroll one way, 40 (the clamped height) the other.\<close>

theorem getScrollData_scrollAmount_sign_witness:
  "(0::rat) < 40 \<and> (0::rat) \<le> (640 - 260 - 0) / 2
   \<and> (0::rat) + (640 - 260 - 0) / 2 + 1 / 2 < 500 + 0 - 0
   \<and> scrollAmount (getScrollData 500 40
        \<lparr>contentTop = 0, contentHeight = 640, scrollTop = 0, scrollHeight = 1200\<rparr> 260 640) < 0
   \<and> (- 50 :: rat) + 0 - 0 + 1 / 2 \<le> 0
   \<and> 0 < scrollAmount (getScrollData (- 50) 40
        \<lparr>contentTop = 0, contentHeight = 640, scrollTop = 0, scrollHeight = 1200\<rparr> 260 640)"
  using
    getScrollData_scrollAmount_sign
      [where inputOffsetTop = 500 and inputOffsetHeight = 40 and keyboardHeight = 260
         and plaformHeight = 640
         and scrollViewDimensions =
           "\<lparr>contentTop = 0, contentHeight = 640, scrollTop = 0, scrollHeight = 1200\<rparr>"]
    getScrollData_scrollAmount_sign
      [where inputOffsetTop = "- 50" and inputOffsetHeight = 40 and keyboardHeight = 260
         and plaformHeight = 640
         and scrollViewDimensions =
           "\<lparr>contentTop = 0, contentHeight = 640, scrollTop = 0, scrollHeight = 1200\<rparr>"]
  by simp

subsection \<open>The clamp for a field above the safe area\<close>

text \<open>
  Claim C3. For a field of non-negative height whose top is above the safe area
  (\<open>inputTop < safeAreaTop\<close>), the absolute value of \<open>scrollAmount\<close> is at most the
  height of the field.
\<close>

theorem getScrollData_above_clamped:
  fixes inputOffsetTop inputOffsetHeight keyboardHeight plaformHeight :: rat
    and scrollViewDimensions :: ContentDimensions
  defines "inputTop \<equiv> inputOffsetTop + contentTop scrollViewDimensions - scrollTop scrollViewDimensions"
  defines "safeAreaTop \<equiv> contentTop scrollViewDimensions"
  assumes h: "0 \<le> inputOffsetHeight" and above: "inputTop < safeAreaTop"
  shows "\<bar>scrollAmount (getScrollData inputOffsetTop inputOffsetHeight
            scrollViewDimensions keyboardHeight plaformHeight)\<bar> \<le> inputOffsetHeight"
proof -
  define safeAreaHeight where "safeAreaHeight = (plaformHeight - keyboardHeight - safeAreaTop) / 2"
  define safeAreaBottom where "safeAreaBottom = safeAreaTop + safeAreaHeight"
  define rounded where "rounded =
     (if inputOffsetHeight < safeAreaHeight
      then Math_round (safeAreaBottom - (inputTop + inputOffsetHeight))
      else Math_round (safeAreaTop - inputTop))"
  have "0 \<le> rounded"
    unfolding rounded_def using above h safeAreaBottom_def by (auto intro!: Math_round_nonneg)
  moreover have "scrollAmount (getScrollData inputOffsetTop inputOffsetHeight
            scrollViewDimensions keyboardHeight plaformHeight) =
      (if inputOffsetHeight < rounded then inputOffsetHeight else rounded)"
    using above
    by (subst scrollAmount_getScrollData [where inputTop = inputTop and safeAreaTop = safeAreaTop
          and safeAreaHeight = safeAreaHeight and safeAreaBottom = safeAreaBottom and rounded = rounded])
       (simp_all add: inputTop_def safeAreaTop_def safeAreaHeight_def safeAreaBottom_def rounded_def)
  ultimately show ?thesis using h by simp
qed

text \<open>
  A field 40 high whose top is 50 above the safe area: the rounded amount would be
  200, the clamp leaves 40.
\<close>

theorem getScrollData_above_clamped_witness:
  "(0::rat) \<le> 40 \<and> (- 50 :: rat) + 0 - 0 < 0
   \<and> \<bar>scrollAmount (getScrollData (- 50) 40
         \<lparr>contentTop = 0, contentHeight = 640, scrollTop = 0, scrollHeight = 1200\<rparr> 260 640)\<bar> \<le> 40"
  using getScrollData_above_clamped
    [where inputOffsetTop = "- 50" and inputOffsetHeight = 40 and keyboardHeight = 260
       and plaformHeight = 640
       and scrollViewDimensions =
         "\<lparr>contentTop = 0, contentHeight = 640, scrollTop = 0, scrollHeight = 1200\<rparr>"]
  by simp

subsection \<open>The scroll padding\<close>

text \<open>
  Claim C5. Unless the field is fully inside the safe area, the plan has
  \<open>scrollPadding = keyboardHeight\<close>, whatever the scroll amount comes to; the early
  return for a field fully inside is the one exit that leaves the padding at zero.
  The height of the field need not be restricted for this.
\<close>

theorem getScrollData_scrollPadding:
  fixes inputOffsetTop inputOffsetHeight keyboardHeight plaformHeight :: rat
    and scrollViewDimensions :: ContentDimensions
  defines "inputTop \<equiv> inputOffsetTop + contentTop scrollViewDimensions - scrollTop scrollViewDimensions"
  defines "inputBottom \<equiv> inputTop + inputOffsetHeight"
  defines "safeAreaTop \<equiv> contentTop scrollViewDimensions"
  defines "safeAreaBottom \<equiv> safeAreaTop + (plaformHeight - keyboardHeight - safeAreaTop) / 2"
  defines "fullyInside \<equiv> (safeAreaTop \<le> inputTop \<and> inputTop \<le> safeAreaBottom)
                          \<and> (safeAreaTop \<le> inputBottom \<and> inputBottom \<le> safeAreaBottom)"
  defines "plan \<equiv> getScrollData inputOffsetTop inputOffsetHeight scrollViewDimensions
                     keyboardHeight plaformHeight"
  shows "(\<not> fullyInside \<longrightarrow> scrollPadding plan = keyboardHeight)
       \<and> (fullyInside \<longrightarrow> scrollPadding plan = 0)"
  unfolding plan_def fullyInside_def inputTop_def inputBottom_def safeAreaTop_def safeAreaBottom_def
    getScrollData_def Let_def
  by simp

text \<open>
  With the safe area ending at 10.5, a field from 5 to 11 sticks out by half a pixel:
  the amount rounds to zero and the padding is still the keyboard height. A field
  from 5 to 9 is inside and gets none.
\<close>

theorem getScrollData_scrollPadding_witness:
  "\<not> (5::rat) + 0 - 0 + 6 \<le> 0 + (281 - 260 - 0) / 2
   \<and> getScrollData 5 6 \<lparr>contentTop = 0, contentHeight = 281, scrollTop = 0, scrollHeight = 600\<rparr> 260 281
       = \<lparr>scrollAmount = 0, scrollTo = 0, scrollPadding = 260, inputSafeY = - 1\<rparr>
   \<and> (5::rat) + 0 - 0 + 4 \<le> 0 + (281 - 260 - 0) / 2
   \<and> scrollPadding (getScrollData 5 4
        \<lparr>contentTop = 0, contentHeight = 281, scrollTop = 0, scrollHeight = 600\<rparr> 260 281) = 0"
proof -
  have "getScrollData 5 6 \<lparr>contentTop = 0, contentHeight = 281, scrollTop = 0, scrollHeight = 600\<rparr> 260 281
       = \<lparr>scrollAmount = 0, scrollTo = 0, scrollPadding = 260, inputSafeY = - 1\<rparr>"
    by code_simp
  then show ?thesis
    using
      getScrollData_scrollPadding
        [where inputOffsetTop = 5 and inputOffsetHeight = 6 and keyboardHeight = 260
           and plaformHeight = 281
           and scrollViewDimensions =
             "\<lparr>contentTop = 0, contentHeight = 281, scrollTop = 0, scrollHeight = 600\<rparr>"]
      getScrollData_scrollPadding
        [where inputOffsetTop = 5 and inputOffsetHeight = 4 and keyboardHeight = 260
           and plaformHeight = 281
           and scrollViewDimensions =
             "\<lparr>contentTop = 0, contentHeight = 281, scrollTop = 0, scrollHeight = 600\<rparr>"]
    by simp
qed

subsection \<open>The duration of the scroll\<close>

text \<open>
  Claim C6. \<^verbatim>\<open>getScrollAssistDuration(d)\<close> is \<open>clamp(|d| / 0.3, 150, 400)\<close>: it lies
  between 150 and 400, it does not decrease when \<open>|d|\<close> grows, and it is the quotient
  itself whenever the quotient lies between 150 and 400.
\<close>

theorem getScrollAssistDuration_clamp:
  "getScrollAssistDuration d = spec_clamp (\<bar>d\<bar> / SCROLL_ASSIST_SPEED) 150 400
   \<and> 150 \<le> getScrollAssistDuration d \<and> getScrollAssistDuration d \<le> 400
   \<and> (\<bar>d\<bar> \<le> \<bar>d'\<bar> \<longrightarrow> getScrollAssistDuration d \<le> getScrollAssistDuration d')
   \<and> (150 \<le> \<bar>d\<bar> / SCROLL_ASSIST_SPEED \<and> \<bar>d\<bar> / SCROLL_ASSIST_SPEED \<le> 400
        \<longrightarrow> getScrollAssistDuration d = \<bar>d\<bar> / SCROLL_ASSIST_SPEED)"
proof -
  have mono: "\<bar>d\<bar> / SCROLL_ASSIST_SPEED \<le> \<bar>d'\<bar> / SCROLL_ASSIST_SPEED" if "\<bar>d\<bar> \<le> \<bar>d'\<bar>"
    using that by (simp add: SCROLL_ASSIST_SPEED_def divide_right_mono)
  show ?thesis
    using mono
    by (auto simp: getScrollAssistDuration_def spec_clamp_def Let_def min_def max_def)
qed

text \<open>Distances of 60 and 90 take 200 and 300; 3 is raised to 150, 350 capped at 400.\<close>

theorem getScrollAssistDuration_clamp_witness:
  "\<bar>60 :: rat\<bar> \<le> \<bar>- 90\<bar>
   \<and> getScrollAssistDuration 60 \<le> getScrollAssistDuration (- 90)
   \<and> (150::rat) \<le> \<bar>60\<bar> / SCROLL_ASSIST_SPEED \<and> \<bar>60 :: rat\<bar> / SCROLL_ASSIST_SPEED \<le> 400
   \<and> getScrollAssistDuration 60 = 200 \<and> getScrollAssistDuration (- 90) = 300
   \<and> getScrollAssistDuration 3 = 150 \<and> getScrollAssistDuration (- 350) = 400"
  using getScrollAssistDuration_clamp [of 60 "- 90"] getScrollAssistDuration_clamp [of "- 90" 60]
    getScrollAssistDuration_clamp [of 3 3] getScrollAssistDuration_clamp [of "- 350" 0]
  by (simp add: SCROLL_ASSIST_SPEED_def spec_clamp_def)

section \<open>Properties of the component\<close>

subsection \<open>Setting focus\<close>

text \<open>
  Claim C10. \<^verbatim>\<open>setFocus\<close>, and with it the method \<^verbatim>\<open>initFocus\<close> that delegates to it,
  calls \<^verbatim>\<open>focus()\<close> on the native element only when the field already reports focus;
  on a field without focus it does nothing at all. (The comment in the source reads
  "only if it does not already have focus"; the test in the code is \<^verbatim>\<open>this.isFocus()\<close>.)
\<close>

theorem setFocus_only_when_focused:
  "(ti_isFocus self \<longrightarrow> setFocus self = self\<lparr>calls := calls self @ [Native_focus]\<rparr>
                          \<and> TextInput_initFocus self = setFocus self)
   \<and> (\<not> ti_isFocus self \<longrightarrow> setFocus self = self \<and> TextInput_initFocus self = self)"
  by (simp add: setFocus_def TextInput_initFocus_def call_def)

theorem setFocus_only_when_focused_witness:
  "\<not> ti_isFocus example_field \<and> setFocus example_field = example_field
   \<and> TextInput_initFocus example_field = example_field
   \<and> ti_isFocus (example_field\<lparr>ti_isFocus := True\<rparr>)
   \<and> calls (setFocus (example_field\<lparr>ti_isFocus := True\<rparr>)) = [Native_focus]"
  using setFocus_only_when_focused [of example_field]
    setFocus_only_when_focused [of "example_field\<lparr>ti_isFocus := True\<rparr>"]
  by (simp add: example_field_def)

subsection \<open>Clear on edit\<close>

lemma onKeydown_flag_clear:
  "\<not> ti_didBlurAfterEdit self \<Longrightarrow>
     ti_value (onKeydown hasValue ev self) = ti_value self
     \<and> \<not> ti_didBlurAfterEdit (onKeydown hasValue ev self)"
  by (simp add: onKeydown_def checkClearOnEdit_def Let_def split: option.splits)

text \<open>
  Claim C9. A field of type \<^verbatim>\<open>password\<close> whose \<^verbatim>\<open>clearOnEdit\<close> was not set to false has
  \<^verbatim>\<open>clearOnEdit\<close> true after \<^verbatim>\<open>ngOnInit\<close> (given that \<^verbatim>\<open>isTrueProperty(true)\<close> holds). A
  field with \<^verbatim>\<open>clearOnEdit\<close> on that blurs while it has a value has its flag set; after
  it regains focus the first keystroke empties the value and resets the flag; the
  next keystroke leaves whatever has been typed since. In general no keystroke
  changes the value or sets the flag while the flag is down, so nothing is cleared
  again before another blur with a value.
\<close>

theorem clearOnEdit_default_and_single_clear:
  "(ti_type self = ''password'' \<and> ti_clearOnEdit self \<noteq> Some False \<and> isTrueProperty (JS_bool True)
      \<longrightarrow> ti_clearOnEdit (ngOnInit isTrueProperty self) = Some True)
   \<and> (ti_clearOnEdit self = Some True \<and> hasValue (ti_value self) \<longrightarrow>
        (let blurred = inputFocusChanged hasValue False self;
             typed = onKeydown hasValue (Some key) (inputFocusChanged hasValue True blurred)
         in ti_didBlurAfterEdit blurred
            \<and> ti_value typed = [] \<and> \<not> ti_didBlurAfterEdit typed
            \<and> ti_value (onKeydown hasValue (Some key') (typed\<lparr>ti_value := edited\<rparr>)) = edited))
   \<and> (\<not> ti_didBlurAfterEdit self \<longrightarrow>
        ti_value (onKeydown hasValue ev self) = ti_value self
        \<and> \<not> ti_didBlurAfterEdit (onKeydown hasValue ev self))"
proof (intro conjI impI)
  assume "ti_type self = ''password'' \<and> ti_clearOnEdit self \<noteq> Some False \<and> isTrueProperty (JS_bool True)"
  then show "ti_clearOnEdit (ngOnInit isTrueProperty self) = Some True"
    by (simp add: ngOnInit_def set_clearOnEdit_def Let_def call_def)
next
  assume a: "ti_clearOnEdit self = Some True \<and> hasValue (ti_value self)"
  define blurred where "blurred = inputFocusChanged hasValue False self"
  define focused where "focused = inputFocusChanged hasValue True blurred"
  define typed where "typed = onKeydown hasValue (Some key) focused"
  have b: "ti_didBlurAfterEdit blurred" "ti_clearOnEdit blurred = Some True"
          "ti_value blurred = ti_value self"
    using a by (simp_all add: blurred_def inputFocusChanged_def call_def)
  have f: "ti_didBlurAfterEdit focused" "ti_clearOnEdit focused = Some True"
          "ti_value focused = ti_value self"
    using b by (simp_all add: focused_def inputFocusChanged_def call_def)
  have t: "ti_value typed = []" "\<not> ti_didBlurAfterEdit typed"
    using a f by (simp_all add: typed_def onKeydown_def checkClearOnEdit_def clearTextInput_def)
  have "ti_value (onKeydown hasValue (Some key') (typed\<lparr>ti_value := edited\<rparr>)) = edited"
    using t(2) onKeydown_flag_clear [of "typed\<lparr>ti_value := edited\<rparr>" hasValue "Some key'"] by simp
  with b(1) t
  show "let blurred = inputFocusChanged hasValue False self;
            typed = onKeydown hasValue (Some key) (inputFocusChanged hasValue True blurred)
        in ti_didBlurAfterEdit blurred
           \<and> ti_value typed = [] \<and> \<not> ti_didBlurAfterEdit typed
           \<and> ti_value (onKeydown hasValue (Some key') (typed\<lparr>ti_value := edited\<rparr>)) = edited"
    by (simp add: Let_def blurred_def focused_def typed_def)
next
  assume "\<not> ti_didBlurAfterEdit self"
  then show "ti_value (onKeydown hasValue ev self) = ti_value self"
    using onKeydown_flag_clear by blast
next
  assume "\<not> ti_didBlurAfterEdit self"
  then show "\<not> ti_didBlurAfterEdit (onKeydown hasValue ev self)"
    using onKeydown_flag_clear by blast
qed

text \<open>
  The password field holding \<open>''secret''\<close>: initialised, blurred, focused again; the
  key \<open>a\<close> empties it, the key \<open>b\<close> leaves the \<open>a\<close>.
\<close>

theorem clearOnEdit_default_and_single_clear_witness:
  "ti_type example_field = ''password'' \<and> ti_clearOnEdit example_field \<noteq> Some False
   \<and> ti_clearOnEdit (ngOnInit (\<lambda>v. v = JS_bool True) example_field) = Some True
   \<and> spec_hasValue (ti_value (ngOnInit (\<lambda>v. v = JS_bool True) example_field))
   \<and> ti_value (onKeydown spec_hasValue (Some ''a'')
        (inputFocusChanged spec_hasValue True
           (inputFocusChanged spec_hasValue False
              (ngOnInit (\<lambda>v. v = JS_bool True) example_field)))) = []
   \<and> ti_value (onKeydown spec_hasValue (Some ''b'')
        ((onKeydown spec_hasValue (Some ''a'')
           (inputFocusChanged spec_hasValue True
              (inputFocusChanged spec_hasValue False
                 (ngOnInit (\<lambda>v. v = JS_bool True) example_field))))\<lparr>ti_value := ''a''\<rparr>)) = ''a''"
proof -
  have init: "ti_type example_field = ''password''" "ti_clearOnEdit example_field \<noteq> Some False"
    by (simp_all add: example_field_def)
  have v: "ti_value (ngOnInit (\<lambda>v. v = JS_bool True) example_field) = ''secret''"
    by (simp add: ngOnInit_def set_clearOnEdit_def Let_def call_def example_field_def example_dom_def)
  show ?thesis
    using init v
      clearOnEdit_default_and_single_clear [of example_field "\<lambda>v. v = JS_bool True"]
      clearOnEdit_default_and_single_clear
        [of "ngOnInit (\<lambda>v. v = JS_bool True) example_field" "\<lambda>v. v = JS_bool True" spec_hasValue
            "''a''" "''b''" "''a''"]
    by (simp add: Let_def spec_hasValue_def)
qed

subsection \<open>Relocating the input\<close>

lemma removeChildren_all: "removeChildren xs xs = []"
  by (induction xs) simp_all

lemma removeClone_no_clones:
  "has_component d \<Longrightarrow> has_parent d \<Longrightarrow> cloned_inputs (removeClone d) = []"
  by (simp add: removeClone_def removeChildren_all)

text \<open>
  What the body of \<^verbatim>\<open>beginFocus\<close> does when it runs on the component, and what the
  sibling \<^verbatim>\<open>hideFocus\<close> does through \<^verbatim>\<open>self\<close>: one clone is appended, and a second
  \<^verbatim>\<open>beginFocus(true, y)\<close> changes nothing.
\<close>

lemma beginFocus_this_component_once:
  assumes "has_component (ti_dom self)" and "has_parent (ti_dom self)" and "\<not> relocated self"
  shows "\<exists>s1. beginFocus_this This_component True y self = Inr s1
            \<and> length (cloned_inputs (ti_dom s1)) = Suc (length (cloned_inputs (ti_dom self)))
            \<and> beginFocus_this This_component True y s1 = Inr s1"
  using assms by (simp add: beginFocus_this_def cloneInputComponent_def Let_def)

lemma hideFocus_clones_once:
  assumes "has_component (ti_dom self)" and "has_parent (ti_dom self)"
  shows "\<exists>s1. hideFocus True self = Inr s1
            \<and> length (cloned_inputs (ti_dom s1)) = Suc (length (cloned_inputs (ti_dom self)))"
  using assms by (simp add: hideFocus_def cloneInputComponent_def Let_def)

text \<open>
  Claim C8. Calling \<^verbatim>\<open>beginFocus\<close> twice with the same \<open>shouldFocus\<close> performs the
  relocation at most once, the second call returning at the test of \<open>relocated\<close>;
  \<^verbatim>\<open>beginFocus(true, y)\<close> twice leaves exactly one clone, and \<^verbatim>\<open>beginFocus(false, _)\<close> on
  a field that is not relocated does nothing.

  As the source calls it, the first \<^verbatim>\<open>beginFocus(true, y)\<close> on a field that is not
  relocated sets \<open>relocated\<close> and then throws at \<^verbatim>\<open>this._native\<close>, before
  \<^verbatim>\<open>cloneInputComponent\<close>: the document is untouched. The second call does return at
  once, and \<^verbatim>\<open>beginFocus(false, _)\<close> on a field that is not relocated is a no-op; but
  the two calls leave no clone where the claim has one.
\<close>

theorem beginFocus_twice_no_clone:
  "beginFocus True y (self\<lparr>relocated := False\<rparr>) = Inl (TypeError, self\<lparr>relocated := True\<rparr>)
   \<and> beginFocus True y (self\<lparr>relocated := True\<rparr>) = Inr (self\<lparr>relocated := True\<rparr>)
   \<and> cloned_inputs (ti_dom (self\<lparr>relocated := True\<rparr>)) = cloned_inputs (ti_dom self)
   \<and> beginFocus False y (self\<lparr>relocated := False\<rparr>) = Inr (self\<lparr>relocated := False\<rparr>)"
  by (simp add: beginFocus_def beginFocus_this_def)

subsection \<open>Initiating focus\<close>

lemma initFocus_no_content:
  "ti_content self = None \<Longrightarrow> initFocus self = Inr (setFocus self)"
  by (simp add: initFocus_def)

text \<open>
  A plan that asks for less than 4: \<^verbatim>\<open>setFocus\<close>, then \<^verbatim>\<open>app.setEnabled(true)\<close>, and
  nothing else: no \<^verbatim>\<open>scrollTo\<close>, no \<^verbatim>\<open>setEnabled(false, \<dots>)\<close>.
\<close>

lemma initFocus_small:
  fixes self :: TextInput and dimensions :: ContentDimensions
  defines "plan \<equiv> getScrollData (item_offsetTop (ti_dom self)) (item_offsetHeight (ti_dom self))
                     dimensions (ti_keyboardHeight self) (plt_height self)"
  assumes "ti_content self = Some dimensions" and "\<bar>scrollAmount plan\<bar> < 4"
  shows "initFocus self =
           Inr (call (App_setEnabled True None) (setFocus (self\<lparr>ti_scrollData := Some plan\<rparr>)))"
  using assms(2,3) unfolding plan_def by (simp add: initFocus_def Let_def)

text \<open>
  A plan that asks for 4 or more, without input cloning or on a field already marked
  relocated: \<^verbatim>\<open>app.setEnabled(false, scrollDuration)\<close>, \<^verbatim>\<open>setFocus\<close>, then
  \<^verbatim>\<open>content.scrollTo(0, scrollTo, scrollDuration, \<dots>)\<close>.
\<close>

lemma initFocus_scroll:
  fixes self :: TextInput and dimensions :: ContentDimensions
  defines "plan \<equiv> getScrollData (item_offsetTop (ti_dom self)) (item_offsetHeight (ti_dom self))
                     dimensions (ti_keyboardHeight self) (plt_height self)"
  defines "scrollDuration \<equiv> getScrollAssistDuration (scrollAmount plan)"
  assumes "ti_content self = Some dimensions" and "4 \<le> \<bar>scrollAmount plan\<bar>"
      and "\<not> clone self \<or> relocated self"
  shows "initFocus self =
           Inr (call (Content_scrollTo 0 (scrollTo plan) scrollDuration)
                  (setFocus (call (App_setEnabled False (Some scrollDuration))
                     (self\<lparr>ti_scrollData := Some plan\<rparr>))))"
  using assms(3,4,5) unfolding plan_def scrollDuration_def
  by (auto simp: initFocus_def Let_def call_def beginFocus_def beginFocus_this_def)

lemma scrollTo_completed_cases:
  "scrollTo_completed self =
     (if clone self \<and> relocated self then Inl (TypeError, self\<lparr>relocated := False\<rparr>)
      else Inr (call (App_setEnabled True None) self))"
  by (simp add: scrollTo_completed_def beginFocus_def beginFocus_this_def)

text \<open>
  Claim C4. A focus initiation whose plan has \<open>|scrollAmount| < 4\<close> scrolls nothing
  and takes no lock: it sets focus, re-enables the app and returns; with
  \<open>|scrollAmount| \<ge> 4\<close> it disables the app for exactly the computed duration and
  starts the scroll animation.

  With input cloning on and the field not yet relocated, the second half stops short:
  the app is disabled for the duration, then \<^verbatim>\<open>beginFocus(true, \<dots>)\<close> throws, and
  neither \<^verbatim>\<open>setFocus\<close> nor \<^verbatim>\<open>content.scrollTo\<close> is reached.
\<close>

theorem initFocus_cloning_throws_before_scrollTo:
  fixes self :: TextInput and dimensions :: ContentDimensions
  defines "plan \<equiv> getScrollData (item_offsetTop (ti_dom self)) (item_offsetHeight (ti_dom self))
                     dimensions (ti_keyboardHeight self) (plt_height self)"
  defines "scrollDuration \<equiv> getScrollAssistDuration (scrollAmount plan)"
  assumes "ti_content self = Some dimensions" and "4 \<le> \<bar>scrollAmount plan\<bar>"
      and "clone self" and "\<not> relocated self"
  shows "initFocus self =
           Inl (TypeError,
                (call (App_setEnabled False (Some scrollDuration))
                   (self\<lparr>ti_scrollData := Some plan\<rparr>))\<lparr>relocated := True\<rparr>)"
  using assms(3-) unfolding plan_def scrollDuration_def
  by (simp add: initFocus_def Let_def call_def beginFocus_def beginFocus_this_def)

text \<open>
  The example field: the plan is to scroll by \<open>-350\<close> to 350, the app is disabled for
  400, and that is the only call made.
\<close>

theorem initFocus_cloning_throws_before_scrollTo_witness:
  "ti_content example_field
     = Some \<lparr>contentTop = 0, contentHeight = 640, scrollTop = 0, scrollHeight = 1200\<rparr>
   \<and> clone example_field \<and> \<not> relocated example_field
   \<and> initFocus example_field =
       Inl (TypeError,
            example_field\<lparr>ti_scrollData := Some \<lparr>scrollAmount = - 350, scrollTo = 350,
                                                scrollPadding = 260, inputSafeY = - 496\<rparr>,
                          relocated := True,
                          calls := [App_setEnabled False (Some 400)]\<rparr>)"
proof -
  have plan: "getScrollData 500 40
                \<lparr>contentTop = 0, contentHeight = 640, scrollTop = 0, scrollHeight = 1200\<rparr> 260 640
              = \<lparr>scrollAmount = - 350, scrollTo = 350, scrollPadding = 260, inputSafeY = - 496\<rparr>"
    by code_simp
  have dur: "getScrollAssistDuration (- 350) = 400"
    by (simp add: getScrollAssistDuration_def SCROLL_ASSIST_SPEED_def)
  show ?thesis
    using initFocus_cloning_throws_before_scrollTo
      [of example_field "\<lparr>contentTop = 0, contentHeight = 640, scrollTop = 0, scrollHeight = 1200\<rparr>"]
    by (simp add: example_field_def example_dom_def plan dur call_def)
qed

subsection \<open>Pointer up\<close>

text \<open>
  Claim C7. On pointer up: with the app disabled the handler prevents the default
  action and stops propagation and does nothing more; otherwise, when the pointer has
  not moved by the threshold of 8 from the recorded coordinate and the field has no
  focus, it prevents the default action (and stops propagation) and runs the focus
  initiation; when the pointer has moved by the threshold, it takes no focus action
  and only forgets the coordinate.
\<close>

theorem pointerUp_cases:
  "(\<not> enabled \<longrightarrow>
      pointerUp hasPointerMoved asserts enabled endCoord self =
        Inr (call Ev_stopPropagation (call Ev_preventDefault self)))
   \<and> (enabled \<and> coord self = Some startCoord \<and> \<not> hasPointerMoved 8 (Some startCoord) endCoord
        \<and> \<not> ti_isFocus self \<longrightarrow>
      pointerUp hasPointerMoved asserts enabled endCoord self =
        (case initFocus (call Ev_stopPropagation (call Ev_preventDefault self)) of
           Inl thrown \<Rightarrow> Inl thrown
         | Inr s \<Rightarrow> Inr (s\<lparr>coord := None\<rparr>)))
   \<and> (enabled \<and> coord self = Some startCoord \<and> hasPointerMoved 8 (Some startCoord) endCoord \<longrightarrow>
      pointerUp hasPointerMoved asserts enabled endCoord self = Inr (self\<lparr>coord := None\<rparr>))"
  by (simp add: pointerUp_def)

text \<open>
  The specification's gestures on the example field: down at (100, 100); up at
  (103, 104) initiates focus, up at (100, 120) does not, and up while the app is
  disabled only swallows the event.
\<close>

theorem pointerUp_cases_witness:
  "coord (snd (pointerDown True \<lparr>coord_x = 100, coord_y = 100\<rparr> example_field))
      = Some \<lparr>coord_x = 100, coord_y = 100\<rparr>
   \<and> \<not> spec_hasPointerMoved 8 (Some \<lparr>coord_x = 100, coord_y = 100\<rparr>) \<lparr>coord_x = 103, coord_y = 104\<rparr>
   \<and> \<not> ti_isFocus (snd (pointerDown True \<lparr>coord_x = 100, coord_y = 100\<rparr> example_field))
   \<and> pointerUp spec_hasPointerMoved True True \<lparr>coord_x = 103, coord_y = 104\<rparr>
        (snd (pointerDown True \<lparr>coord_x = 100, coord_y = 100\<rparr> example_field))
      = (case initFocus (call Ev_stopPropagation (call Ev_preventDefault
                (snd (pointerDown True \<lparr>coord_x = 100, coord_y = 100\<rparr> example_field)))) of
           Inl thrown \<Rightarrow> Inl thrown
         | Inr s \<Rightarrow> Inr (s\<lparr>coord := None\<rparr>))
   \<and> spec_hasPointerMoved 8 (Some \<lparr>coord_x = 100, coord_y = 100\<rparr>) \<lparr>coord_x = 100, coord_y = 120\<rparr>
   \<and> pointerUp spec_hasPointerMoved True True \<lparr>coord_x = 100, coord_y = 120\<rparr>
        (snd (pointerDown True \<lparr>coord_x = 100, coord_y = 100\<rparr> example_field))
      = Inr example_field
   \<and> pointerUp spec_hasPointerMoved True False \<lparr>coord_x = 103, coord_y = 104\<rparr>
        (snd (pointerDown True \<lparr>coord_x = 100, coord_y = 100\<rparr> example_field))
      = Inr (call Ev_stopPropagation (call Ev_preventDefault
               (snd (pointerDown True \<lparr>coord_x = 100, coord_y = 100\<rparr> example_field))))"
  using
    pointerUp_cases
      [where enabled = True and hasPointerMoved = spec_hasPointerMoved and asserts = True
         and endCoord = "\<lparr>coord_x = 103, coord_y = 104\<rparr>"
         and self = "snd (pointerDown True \<lparr>coord_x = 100, coord_y = 100\<rparr> example_field)"
         and startCoord = "\<lparr>coord_x = 100, coord_y = 100\<rparr>"]
    pointerUp_cases
      [where enabled = True and hasPointerMoved = spec_hasPointerMoved and asserts = True
         and endCoord = "\<lparr>coord_x = 100, coord_y = 120\<rparr>"
         and self = "snd (pointerDown True \<lparr>coord_x = 100, coord_y = 100\<rparr> example_field)"
         and startCoord = "\<lparr>coord_x = 100, coord_y = 100\<rparr>"]
    pointerUp_cases
      [where enabled = False and hasPointerMoved = spec_hasPointerMoved and asserts = True
         and endCoord = "\<lparr>coord_x = 103, coord_y = 104\<rparr>"
         and self = "snd (pointerDown True \<lparr>coord_x = 100, coord_y = 100\<rparr> example_field)"
         and startCoord = "\<lparr>coord_x = 100, coord_y = 100\<rparr>"]
  by (simp add: pointerDown_def spec_hasPointerMoved_def example_field_def)

end
